theory Spec2Isabelle
  imports Complex_Main
begin

section \<open>Strings and the library functions the parser calls\<close>

text \<open>
  A Python \<open>str\<close> is a sequence of Unicode code points, so a string is a list of code
  points here (\<open>nat\<close>); \<open>ascii\<close> turns an ASCII literal into such a list. The Cyrillic
  constants of the source are written out by code point.
\<close>

type_synonym ustring = "nat list"

definition ascii :: "string \<Rightarrow> ustring" where
  "ascii s = map of_char s"

text \<open>The label token of a block header: U+0411 U+043B U+043E U+043A.\<close>

definition Blok :: ustring where
  "Blok = [1041, 1083, 1086, 1082]"

text \<open>The keyword of practical work, \<open>praktik\<close>: U+043F U+0440 U+0430 U+043A U+0442 U+0438 U+043A;
  and the same word with the ending U+0430, \<open>praktika\<close>.\<close>

definition praktik :: ustring where
  "praktik = [1087, 1088, 1072, 1082, 1090, 1080, 1082]"

definition praktika :: ustring where
  "praktika = praktik @ [1072]"

text \<open>The default title (\<open>Uchebnyj plan\<close>), the university (\<open>ITMO\<close>) and the level (\<open>magistratura\<close>).\<close>

definition default_title :: ustring where
  "default_title = [1059, 1095, 1077, 1073, 1085, 1099, 1081, 32, 1087, 1083, 1072, 1085]"

definition ITMO :: ustring where
  "ITMO = [1048, 1058, 1052, 1054]"

definition magistratura :: ustring where
  "magistratura = [1084, 1072, 1075, 1080, 1089, 1090, 1088, 1072, 1090, 1091, 1088, 1072]"

text \<open>
  \<open>str.strip()\<close> removes the leading and trailing characters for which \<open>str.isspace\<close>
  holds: U+0009..U+000D, U+001C..U+0020, U+0085, U+00A0, U+1680, U+2000..U+200A, U+2028,
  U+2029, U+202F, U+205F and U+3000.
\<close>

definition isspace :: "nat \<Rightarrow> bool" where
  "isspace c \<longleftrightarrow>
     (9 \<le> c \<and> c \<le> 13) \<or> (28 \<le> c \<and> c \<le> 32) \<or> c = 133 \<or> c = 160 \<or> c = 5760 \<or>
     (8192 \<le> c \<and> c \<le> 8202) \<or> c = 8232 \<or> c = 8233 \<or> c = 8239 \<or> c = 8287 \<or> c = 12288"

definition strip :: "ustring \<Rightarrow> ustring" where
  "strip s = rev (dropWhile isspace (rev (dropWhile isspace s)))"

text \<open>\<open>s.startswith(p)\<close> and \<open>p in s\<close>.\<close>

fun startswith :: "ustring \<Rightarrow> ustring \<Rightarrow> bool" where
  "startswith s [] = True"
| "startswith [] (p # ps) = False"
| "startswith (c # cs) (p # ps) = (c = p \<and> startswith cs ps)"

fun contains :: "ustring \<Rightarrow> ustring \<Rightarrow> bool" where
  "contains p [] = (p = [])"
| "contains p (c # cs) = (startswith (c # cs) p \<or> contains p cs)"

text \<open>
  Three library functions are parameters of the model, because their full tables are
  Python's and not the repository's:
  \<^item> \<open>digit_val c\<close> is the value of the code point \<open>c\<close> when \<open>c\<close> is a decimal digit (the
    characters that \<open>\d\<close> matches and that \<open>int()\<close> reads as digits), \<open>None\<close> otherwise;
  \<^item> \<open>float_of s\<close> is \<open>float(s)\<close>, with \<open>None\<close> for \<open>ValueError\<close>;
  \<^item> \<open>lower s\<close> is \<open>s.lower()\<close>.
  The type \<open>'f\<close> stands for Python's \<open>float\<close>. Only its addition, its order and its zero
  (the float \<open>0.0\<close>) are used, and nothing is assumed about them: \<open>'f\<close> ranges over the
  sort \<open>{zero, plus, ord}\<close>, which has no axioms.
\<close>

record 'f py =
  digit_val :: "nat \<Rightarrow> nat option"
  float_of :: "ustring \<Rightarrow> 'f option"
  lower :: "ustring \<Rightarrow> ustring"

text \<open>
  A credit value of the source is a float read from a cell or the integer literal \<open>0\<close>
  (for a blank or unreadable cell, and as the start of every running total), and a sum
  of such values is again one of the two. Python adds an integer and a float after
  converting the integer, and compares them by value; \<open>0 > 0\<close> on integers is false.
\<close>

datatype 'f number = PyInt0 | PyFloat 'f

text \<open>\<open>float(a)\<close> of a credit value.\<close>

fun to_float :: "'f::{zero,plus,ord} number \<Rightarrow> 'f" where
  "to_float PyInt0 = 0"
| "to_float (PyFloat x) = x"

text \<open>The sum \<open>a + b\<close> of two credit values and the test \<open>a > 0\<close>.\<close>

definition num_add :: "'f::{zero,plus,ord} number \<Rightarrow> 'f number \<Rightarrow> 'f number" where
  "num_add a b =
     (case (a, b) of
        (PyInt0, PyInt0) \<Rightarrow> PyInt0
      | _ \<Rightarrow> PyFloat (to_float a + to_float b))"

definition num_pos :: "'f::{zero,plus,ord} number \<Rightarrow> bool" where
  "num_pos a = (case a of PyInt0 \<Rightarrow> False | PyFloat x \<Rightarrow> 0 < x)"

definition is_digit :: "'f py \<Rightarrow> nat \<Rightarrow> bool" where
  "is_digit py c = (digit_val py c \<noteq> None)"

text \<open>
  The value of a string of digits, most significant first: \<open>int(s)\<close> for a string
  \<open>s\<close> of digits. (An interpreter can be set to refuse very long strings of digits,
  4300 by default since Python 3.11; the model has no such limit.)
\<close>

definition digits_value :: "'f py \<Rightarrow> ustring \<Rightarrow> int" where
  "digits_value py ds =
     foldl (\<lambda>acc c. 10 * acc + int (case digit_val py c of Some v \<Rightarrow> v | None \<Rightarrow> 0)) 0 ds"

text \<open>
  \<open>int(s)\<close> on a stripped string: an optional sign, then digits, where single
  underscores may stand between digits. \<open>None\<close> is \<open>ValueError\<close>.
\<close>

fun digits_underscores :: "'f py \<Rightarrow> ustring \<Rightarrow> bool" where
  "digits_underscores py [] = False"
| "digits_underscores py [c] = is_digit py c"
| "digits_underscores py (c # d # cs) =
     (is_digit py c \<and>
      (if d = 95 then cs \<noteq> [] \<and> digits_underscores py cs else digits_underscores py (d # cs)))"

definition int_of_unsigned :: "'f py \<Rightarrow> ustring \<Rightarrow> int option" where
  "int_of_unsigned py s =
     (if digits_underscores py s then Some (digits_value py (filter (\<lambda>c. c \<noteq> 95) s)) else None)"

definition int_of :: "'f py \<Rightarrow> ustring \<Rightarrow> int option" where
  "int_of py s =
     (case s of
        [] \<Rightarrow> None
      | c # cs \<Rightarrow>
          if c = 45 then map_option uminus (int_of_unsigned py cs)
          else if c = 43 then int_of_unsigned py cs
          else int_of_unsigned py s)"

subsection \<open>The three regular expressions\<close>

text \<open>\<open>re.match(r"^\d+$", s)\<close> on a stripped string: \<open>s\<close> is one or more digits.\<close>

definition re_digits :: "'f py \<Rightarrow> ustring \<Rightarrow> bool" where
  "re_digits py s \<longleftrightarrow> s \<noteq> [] \<and> list_all (is_digit py) s"

text \<open>
  What follows the label token and a space in a block header: the longest run of
  digits, which must not be empty, and the rest.
\<close>

definition block_digits :: "'f py \<Rightarrow> ustring \<Rightarrow> (ustring \<times> ustring) option" where
  "block_digits py s =
     (if startswith s (Blok @ [32]) then
        (let r = drop (length Blok + 1) s;
             ds = takeWhile (is_digit py) r
         in if ds = [] then None else Some (ds, dropWhile (is_digit py) r))
      else None)"

text \<open>\<open>re.match(r"Blok \d+\.", s)\<close>: label, space, digits, a period.\<close>

definition re_block_short :: "'f py \<Rightarrow> ustring \<Rightarrow> bool" where
  "re_block_short py s =
     (case block_digits py s of
        None \<Rightarrow> False
      | Some (ds, r) \<Rightarrow> startswith r [46])"

text \<open>
  \<open>re.match(r"Blok (\d+)\. (.+)", s)\<close>: after the period a space and one or more
  characters other than the line feed; the groups are the digits and the longest such
  run. The result is \<open>(int(group(1)), group(2))\<close>. (The period is not a digit, so the
  digits of a match are the longest run of digits.)
\<close>

definition re_block_full :: "'f py \<Rightarrow> ustring \<Rightarrow> (int \<times> ustring) option" where
  "re_block_full py s =
     (case block_digits py s of
        None \<Rightarrow> None
      | Some (ds, r) \<Rightarrow>
          if startswith r [46, 32] then
            (let g = takeWhile (\<lambda>c. c \<noteq> 10) (drop 2 r)
             in if g = [] then None else Some (digits_value py ds, g))
          else None)"

section \<open>The data\<close>

text \<open>A discipline; \<open>semester = None\<close> is a dictionary without the key \<open>semester\<close>.\<close>

record 'f discipline =
  semester :: "int option"
  name :: ustring
  credits :: "'f number"
  hours :: int

record 'f module =
  "module_name" :: ustring
  m_credits :: "'f number"
  m_hours :: int
  disciplines :: "'f discipline list"

text \<open>
  A block. While the rows are read, the list \<open>modules\<close> of a block object holds
  references to module objects (\<open>'m = nat\<close>); in the result it holds the modules.
\<close>

record ('f, 'm) block =
  block_number :: int
  block_name :: ustring
  total_credits :: "'f number"
  total_hours :: int
  modules :: "'m list"

record 'f program_info =
  title :: ustring
  university :: ustring
  level :: ustring
  pi_total_credits :: "'f number"
  pi_total_hours :: int

record 'f work =
  w_total_credits :: "'f number"
  w_total_hours :: int

record 'f bucket =
  b_credits :: "'f number"
  b_hours :: int
  b_disciplines :: nat

text \<open>
  The dictionary \<open>semester_distribution\<close> has the keys \<open>semester_1\<close> to \<open>semester_4\<close>; the
  key \<open>semester_k\<close> is the integer \<open>k\<close> here.
\<close>

record 'f summary =
  total_disciplines :: nat
  semesters_count :: nat
  blocks_count :: nat
  modules_count :: nat
  practical_work :: "'f work"
  theoretical_work :: "'f work"
  semester_distribution :: "int \<rightharpoonup> 'f bucket"

record 'f curriculum =
  program_info :: "'f program_info"
  blocks :: "('f, 'f module) block list"
  summary :: "'f summary"


section \<open>The row classifier and tree builder\<close>

text \<open>
  A row is four text cells, as they stand in the data frame after \<open>fillna('')\<close>.
\<close>

type_synonym row = "ustring \<times> ustring \<times> ustring \<times> ustring"

text \<open>
  The loop of \<open>parse_curriculum_csv\<close> mutates dictionaries that are reachable along
  several paths: the open block through \<open>current_block\<close> and, once appended, through the
  list \<open>blocks\<close>; the open module through \<open>current_module\<close> and through the list \<open>modules\<close> of
  its block. So blocks and modules live in a store, a reference is an index into it, and
  the lists hold references.
\<close>

record 'f state =
  bheap :: "('f, nat) block list"
  mheap :: "'f module list"
  st_blocks :: "nat list"
  st_total_credits :: "'f number"
  st_total_hours :: int
  current_block :: "nat option"
  current_module :: "nat option"

definition init_state :: "'f::{zero,plus,ord} state" where
  "init_state =
     \<lparr>bheap = [], mheap = [], st_blocks = [], st_total_credits = PyInt0, st_total_hours = 0,
      current_block = None, current_module = None\<rparr>"

text \<open>
  The body of each \<open>try\<close>: \<open>credits = float(col3) if col3 else 0\<close> and then
  \<open>hours = int(col4) if col4 else 0\<close>; \<open>None\<close> when either raises \<open>ValueError\<close>.
\<close>

definition try_credits_hours ::
  "'f::{zero,plus,ord} py \<Rightarrow> ustring \<Rightarrow> ustring \<Rightarrow> ('f number \<times> int) option" where
  "try_credits_hours py col3 col4 =
     (case (if col3 \<noteq> [] then map_option PyFloat (float_of py col3) else Some PyInt0) of
        None \<Rightarrow> None
      | Some c \<Rightarrow>
          (case (if col4 \<noteq> [] then int_of py col4 else Some 0) of
             None \<Rightarrow> None
           | Some h \<Rightarrow> Some (c, h)))"

text \<open>With the handler \<open>except ValueError: credits = 0; hours = 0\<close>.\<close>

definition credits_hours_or_zero ::
  "'f::{zero,plus,ord} py \<Rightarrow> ustring \<Rightarrow> ustring \<Rightarrow> 'f number \<times> int" where
  "credits_hours_or_zero py col3 col4 =
     (case try_credits_hours py col3 col4 of None \<Rightarrow> (PyInt0, 0) | Some p \<Rightarrow> p)"

text \<open>\<open>curriculum_data["blocks"].append(current_block)\<close>, under \<open>if current_block\<close>.\<close>

definition seal_block :: "'f state \<Rightarrow> 'f state" where
  "seal_block s =
     (case current_block s of
        None \<Rightarrow> s
      | Some b \<Rightarrow> s\<lparr>st_blocks := st_blocks s @ [b]\<rparr>)"

text \<open>A new block object becomes the open block; the totals of the program grow.\<close>

definition open_block ::
  "int \<Rightarrow> ustring \<Rightarrow> 'f number \<Rightarrow> int \<Rightarrow> 'f::{zero,plus,ord} state \<Rightarrow> 'f state" where
  "open_block block_num nm cr hr s =
     s\<lparr>bheap := bheap s @
          [\<lparr>block_number = block_num, block_name = nm, total_credits = cr,
            total_hours = hr, modules = []\<rparr>],
       current_block := Some (length (bheap s)),
       current_module := None,
       st_total_credits := num_add (st_total_credits s) cr,
       st_total_hours := st_total_hours s + hr\<rparr>"

text \<open>A new module object becomes the open module and is appended to the block at \<open>b\<close>.\<close>

definition open_module :: "nat \<Rightarrow> ustring \<Rightarrow> 'f number \<Rightarrow> int \<Rightarrow> 'f state \<Rightarrow> 'f state" where
  "open_module b nm cr hr s =
     s\<lparr>mheap := mheap s @
          [\<lparr>module_name = nm, m_credits = cr, m_hours = hr, disciplines = []\<rparr>],
       bheap := (bheap s)[b := (bheap s ! b)\<lparr>modules := modules (bheap s ! b) @ [length (mheap s)]\<rparr>],
       current_module := Some (length (mheap s))\<rparr>"

text \<open>\<open>current_module["disciplines"].append(discipline)\<close>, under \<open>if current_module\<close>.\<close>

definition append_discipline :: "'f discipline \<Rightarrow> 'f state \<Rightarrow> 'f state" where
  "append_discipline d s =
     (case current_module s of
        None \<Rightarrow> s
      | Some m \<Rightarrow>
          s\<lparr>mheap := (mheap s)[m := (mheap s ! m)\<lparr>disciplines := disciplines (mheap s ! m) @ [d]\<rparr>]\<rparr>)"

text \<open>The guard of the second branch of the loop, which is the guard of the fourth too.\<close>

definition module_guard :: "'f py \<Rightarrow> ustring \<Rightarrow> ustring \<Rightarrow> ustring \<Rightarrow> ustring \<Rightarrow> bool" where
  "module_guard py col1 col2 col3 col4 \<longleftrightarrow>
     col1 = [] \<and> col2 \<noteq> [] \<and> \<not> startswith col2 Blok \<and> \<not> re_digits py col2 \<and>
     col3 \<noteq> [] \<and> col4 \<noteq> []"

text \<open>
  One turn of the loop \<open>for index, row in df.iterrows()\<close>. The four branches are those
  of the source, in its order.
\<close>

definition step :: "'f::{zero,plus,ord} py \<Rightarrow> 'f state \<Rightarrow> row \<Rightarrow> 'f state" where
  "step py s r =
     (case r of (c1, c2, c3, c4) \<Rightarrow>
      if c1 = [] \<and> c2 = [] \<and> c3 = [] \<and> c4 = [] then s
      else
        let col1 = strip c1; col2 = strip c2; col3 = strip c3; col4 = strip c4 in
        if col1 = [] \<and> contains Blok col2 \<and> re_block_short py col2 then
          (let s1 = seal_block s in
           case re_block_full py col2 of
             None \<Rightarrow> s1
           | Some (block_num, nm) \<Rightarrow>
               (case credits_hours_or_zero py col3 col4 of
                  (cr, hr) \<Rightarrow> open_block block_num nm cr hr s1))
        else if module_guard py col1 col2 col3 col4 then
          (case current_block s of
             None \<Rightarrow> s
           | Some b \<Rightarrow>
               (case credits_hours_or_zero py col3 col4 of
                  (cr, hr) \<Rightarrow>
                    if num_pos cr \<or> 0 < hr then open_module b col2 cr hr s else s))
        else if col1 \<noteq> [] \<and> re_digits py col1 \<and> col2 \<noteq> [] \<and> col3 \<noteq> [] \<and> col4 \<noteq> [] then
          (case int_of py col1 of
             None \<Rightarrow> s
           | Some semester_num \<Rightarrow>
               (case try_credits_hours py col3 col4 of
                  None \<Rightarrow> s
                | Some (cr, hr) \<Rightarrow>
                    append_discipline
                      \<lparr>semester = Some semester_num, name = col2, credits = cr, hours = hr\<rparr> s))
        else if module_guard py col1 col2 col3 col4 then
          (case try_credits_hours py col3 col4 of
             None \<Rightarrow> s
           | Some (cr, hr) \<Rightarrow>
               if num_pos cr \<or> 0 < hr then
                 append_discipline \<lparr>semester = None, name = col2, credits = cr, hours = hr\<rparr> s
               else s)
        else s)"

section \<open>The aggregator\<close>

definition zero_work :: "'f::{zero,plus,ord} work" where
  "zero_work = \<lparr>w_total_credits = PyInt0, w_total_hours = 0\<rparr>"

definition zero_bucket :: "'f::{zero,plus,ord} bucket" where
  "zero_bucket = \<lparr>b_credits = PyInt0, b_hours = 0, b_disciplines = 0\<rparr>"

definition init_summary :: "nat \<Rightarrow> 'f::{zero,plus,ord} summary" where
  "init_summary n =
     \<lparr>total_disciplines = 0, semesters_count = 4, blocks_count = n, modules_count = 0,
      practical_work = zero_work,
      theoretical_work = zero_work,
      semester_distribution =
        [1 \<mapsto> zero_bucket, 2 \<mapsto> zero_bucket, 3 \<mapsto> zero_bucket, 4 \<mapsto> zero_bucket]\<rparr>"

text \<open>The body of \<open>for discipline in module.get("disciplines", [])\<close>.\<close>

definition add_to_bucket :: "'f::{zero,plus,ord} bucket \<Rightarrow> 'f discipline \<Rightarrow> 'f bucket" where
  "add_to_bucket b d =
     \<lparr>b_credits = num_add (b_credits b) (credits d),
      b_hours = b_hours b + hours d,
      b_disciplines = b_disciplines b + 1\<rparr>"

definition summary_discipline :: "'f::{zero,plus,ord} summary \<Rightarrow> 'f discipline \<Rightarrow> 'f summary" where
  "summary_discipline sm d =
     (case semester d of
        None \<Rightarrow> sm
      | Some k \<Rightarrow>
          (case semester_distribution sm k of
             None \<Rightarrow> sm
           | Some b \<Rightarrow>
               sm\<lparr>semester_distribution := (semester_distribution sm)(k \<mapsto> add_to_bucket b d)\<rparr>))"

definition add_work :: "'f::{zero,plus,ord} work \<Rightarrow> 'f module \<Rightarrow> 'f work" where
  "add_work w m =
     \<lparr>w_total_credits = num_add (w_total_credits w) (m_credits m),
      w_total_hours = w_total_hours w + m_hours m\<rparr>"

definition is_practical :: "'f py \<Rightarrow> 'f module \<Rightarrow> bool" where
  "is_practical py m \<longleftrightarrow>
     contains praktika (lower py (module_name m)) \<or> contains praktik (lower py (module_name m))"

text \<open>The body of \<open>for module in block["modules"]\<close>.\<close>

definition summary_module :: "'f py \<Rightarrow> 'f::{zero,plus,ord} summary \<Rightarrow> 'f module \<Rightarrow> 'f summary" where
  "summary_module py sm m =
     (let sm1 = sm\<lparr>total_disciplines := total_disciplines sm + length (disciplines m)\<rparr>;
          sm2 = (if is_practical py m
                 then sm1\<lparr>practical_work := add_work (practical_work sm1) m\<rparr>
                 else sm1\<lparr>theoretical_work := add_work (theoretical_work sm1) m\<rparr>)
      in foldl summary_discipline sm2 (disciplines m))"

text \<open>The body of \<open>for block in curriculum_data["blocks"]\<close>.\<close>

definition summary_block ::
  "'f py \<Rightarrow> 'f::{zero,plus,ord} summary \<Rightarrow> ('f, 'f module) block \<Rightarrow> 'f summary" where
  "summary_block py sm b =
     foldl (summary_module py) (sm\<lparr>modules_count := modules_count sm + length (modules b)\<rparr>)
       (modules b)"

text \<open>
  \<open>extract_summary_info\<close> reads only the entry \<open>blocks\<close> of its argument, so it takes
  that list.
\<close>

definition extract_summary_info ::
  "'f py \<Rightarrow> ('f::{zero,plus,ord}, 'f module) block list \<Rightarrow> 'f summary" where
  "extract_summary_info py bs = foldl (summary_block py) (init_summary (length bs)) bs"

section \<open>The whole function\<close>

text \<open>Reading the tree out of the store: every reference is replaced by its object.\<close>

definition deref_block :: "'f state \<Rightarrow> nat \<Rightarrow> ('f, 'f module) block" where
  "deref_block s b =
     (let ob = bheap s ! b in
      \<lparr>block_number = block_number ob, block_name = block_name ob,
       total_credits = total_credits ob, total_hours = total_hours ob,
       modules = map (\<lambda>m. mheap s ! m) (modules ob)\<rparr>)"

text \<open>\<open>program_title = df.iloc[0, 0] if len(df) > 0 else\<close> the default title.\<close>

definition program_title :: "row list \<Rightarrow> ustring" where
  "program_title rows = (case rows of [] \<Rightarrow> default_title | (c1, c2, c3, c4) # rest \<Rightarrow> c1)"

definition parse_curriculum_csv ::
  "'f::{zero,plus,ord} py \<Rightarrow> row list \<Rightarrow> 'f curriculum" where
  "parse_curriculum_csv py rows =
     (let s = seal_block (foldl (step py) init_state rows);
          bs = map (deref_block s) (st_blocks s)
      in \<lparr>program_info =
            \<lparr>title = program_title rows, university = ITMO, level = magistratura,
             pi_total_credits = st_total_credits s, pi_total_hours = st_total_hours s\<rparr>,
          blocks = bs,
          summary = extract_summary_info py bs\<rparr>)"

section \<open>An instance of the library functions, for running the model\<close>

text \<open>
  For the examples: the ASCII digits; \<open>float()\<close> on plain decimal literals (an optional
  sign, digits, and an optional fraction), read as real numbers; \<open>lower()\<close> on the basic
  Latin and Cyrillic capitals. The examples below use no other input.
\<close>

definition digit_val0 :: "nat \<Rightarrow> nat option" where
  "digit_val0 c = (if 48 \<le> c \<and> c \<le> 57 then Some (c - 48) else None)"

definition dec_value :: "ustring \<Rightarrow> int" where
  "dec_value ds = foldl (\<lambda>acc c. 10 * acc + int (c - 48)) 0 ds"

definition float_of_unsigned0 :: "ustring \<Rightarrow> real option" where
  "float_of_unsigned0 s =
     (let ip = takeWhile (\<lambda>c. 48 \<le> c \<and> c \<le> 57) s;
          r = dropWhile (\<lambda>c. 48 \<le> c \<and> c \<le> 57) s
      in if ip = [] then None
         else if r = [] then Some (of_int (dec_value ip))
         else if hd r = 46 \<and> list_all (\<lambda>c. 48 \<le> c \<and> c \<le> 57) (tl r) then
           Some (of_int (dec_value ip) + of_int (dec_value (tl r)) / 10 ^ length (tl r))
         else None)"

definition float_of0 :: "ustring \<Rightarrow> real option" where
  "float_of0 s =
     (case s of
        [] \<Rightarrow> None
      | c # cs \<Rightarrow>
          if c = 45 then map_option uminus (float_of_unsigned0 cs)
          else if c = 43 then float_of_unsigned0 cs
          else float_of_unsigned0 s)"

definition lower_char0 :: "nat \<Rightarrow> nat" where
  "lower_char0 c =
     (if 65 \<le> c \<and> c \<le> 90 then c + 32
      else if 1040 \<le> c \<and> c \<le> 1071 then c + 32
      else if 1024 \<le> c \<and> c \<le> 1039 then c + 80
      else c)"

definition py0 :: "real py" where
  "py0 = \<lparr>digit_val = digit_val0, float_of = float_of0, lower = map lower_char0\<rparr>"


section \<open>Notions used in the statements\<close>

text \<open>The modules of a tree and its disciplines, in the order of the traversal.\<close>

definition all_modules :: "('f, 'f module) block list \<Rightarrow> 'f module list" where
  "all_modules bs = concat (map modules bs)"

definition all_disciplines :: "('f, 'f module) block list \<Rightarrow> 'f discipline list" where
  "all_disciplines bs = concat (map disciplines (all_modules bs))"

text \<open>All references of a state point into its store.\<close>

definition wf :: "'f state \<Rightarrow> bool" where
  "wf s \<longleftrightarrow>
     (\<forall>b \<in> set (st_blocks s). b < length (bheap s)) \<and>
     (\<forall>b. current_block s = Some b \<longrightarrow> b < length (bheap s)) \<and>
     (\<forall>m. current_module s = Some m \<longrightarrow> m < length (mheap s)) \<and>
     (\<forall>ob \<in> set (bheap s). \<forall>m \<in> set (modules ob). m < length (mheap s))"

text \<open>The row of all four cells empty.\<close>

definition blank :: row where
  "blank = ([], [], [], [])"

text \<open>The name of the block of Scenario A (\<open>Distsipliny\<close>), and rows for the examples.\<close>

definition Distsipliny :: ustring where
  "Distsipliny = [1044, 1080, 1089, 1094, 1080, 1087, 1083, 1080, 1085, 1099]"

definition row_A :: row where
  "row_A = ([], Blok @ ascii '' 1. '' @ Distsipliny, ascii ''10'', ascii ''360'')"

text \<open>The state after the last row and the final \<open>if current_block\<close>.\<close>

definition final_state :: "'f::{zero,plus,ord} py \<Rightarrow> row list \<Rightarrow> 'f state" where
  "final_state py rows = seal_block (foldl (step py) init_state rows)"

text \<open>A property of every module object of the store.\<close>

definition heap_all :: "('f module \<Rightarrow> bool) \<Rightarrow> 'f state \<Rightarrow> bool" where
  "heap_all P s \<longleftrightarrow> list_all P (mheap s)"

definition sem_ok :: "'f module \<Rightarrow> bool" where
  "sem_ok m \<longleftrightarrow> list_all (\<lambda>d. semester d \<noteq> None) (disciplines m)"

definition positive :: "'f::{zero,plus,ord} module \<Rightarrow> bool" where
  "positive m \<longleftrightarrow> num_pos (m_credits m) \<or> 0 < m_hours m"

subsection \<open>The summary as a function of the tree\<close>

text \<open>The keyword test on the lowercased name of a module.\<close>

definition has_keyword :: "'f py \<Rightarrow> 'f module \<Rightarrow> bool" where
  "has_keyword py m \<longleftrightarrow> contains praktik (lower py (module_name m))"

definition bucket_of :: "'f::{zero,plus,ord} discipline list \<Rightarrow> 'f bucket" where
  "bucket_of ds =
     \<lparr>b_credits = foldl num_add PyInt0 (map credits ds), b_hours = foldl (+) 0 (map hours ds),
      b_disciplines = length ds\<rparr>"

definition work_of :: "'f::{zero,plus,ord} module list \<Rightarrow> 'f work" where
  "work_of ms =
     \<lparr>w_total_credits = foldl num_add PyInt0 (map m_credits ms), w_total_hours = foldl (+) 0 (map m_hours ms)\<rparr>"

definition in_semester :: "int \<Rightarrow> 'f discipline list \<Rightarrow> 'f discipline list" where
  "in_semester k ds = filter (\<lambda>d. semester d = Some k) ds"

text \<open>What the summary is, as a function of the tree.\<close>

definition summary_spec :: "'f py \<Rightarrow> ('f::{zero,plus,ord}, 'f module) block list \<Rightarrow> 'f summary" where
  "summary_spec py bs =
     \<lparr>total_disciplines = length (all_disciplines bs), semesters_count = 4,
      blocks_count = length bs, modules_count = length (all_modules bs),
      practical_work = work_of (filter (has_keyword py) (all_modules bs)),
      theoretical_work = work_of (filter (\<lambda>m. \<not> has_keyword py m) (all_modules bs)),
      semester_distribution =
        (\<lambda>k. if k \<in> {1, 2, 3, 4} then Some (bucket_of (in_semester k (all_disciplines bs)))
             else None)\<rparr>"

text \<open>A running state of the aggregator in terms of what it has seen.\<close>

definition acc_bucket :: "'f::{zero,plus,ord} bucket \<Rightarrow> 'f discipline list \<Rightarrow> 'f bucket" where
  "acc_bucket b ds = foldl add_to_bucket b ds"

definition acc_work :: "'f::{zero,plus,ord} work \<Rightarrow> 'f module list \<Rightarrow> 'f work" where
  "acc_work w ms = foldl add_work w ms"

definition distribute ::
  "(int \<rightharpoonup> 'f::{zero,plus,ord} bucket) \<Rightarrow> 'f discipline list \<Rightarrow> (int \<rightharpoonup> 'f bucket)" where
  "distribute sd ds = (\<lambda>k. map_option (\<lambda>b. acc_bucket b (in_semester k ds)) (sd k))"

text \<open>The summary after the aggregator has gone on from \<open>sm\<close> over the modules \<open>ms\<close>,
  with \<open>n\<close> more modules counted.\<close>

definition advance ::
  "'f py \<Rightarrow> 'f::{zero,plus,ord} summary \<Rightarrow> nat \<Rightarrow> 'f module list \<Rightarrow> 'f summary" where
  "advance py sm n ms =
     \<lparr>total_disciplines = total_disciplines sm + length (concat (map disciplines ms)),
      semesters_count = semesters_count sm, blocks_count = blocks_count sm,
      modules_count = modules_count sm + n,
      practical_work = acc_work (practical_work sm) (filter (has_keyword py) ms),
      theoretical_work = acc_work (theoretical_work sm) (filter (\<lambda>m. \<not> has_keyword py m) ms),
      semester_distribution =
        distribute (semester_distribution sm) (concat (map disciplines ms))\<rparr>"

text \<open>The result with another title.\<close>

definition with_title :: "ustring \<Rightarrow> 'f curriculum \<Rightarrow> 'f curriculum" where
  "with_title t c = c\<lparr>program_info := (program_info c)\<lparr>title := t\<rparr>\<rparr>"

definition row_T :: row where
  "row_T = (ascii ''T'', [], [], [])"

definition row_orphan :: row where
  "row_orphan = (ascii ''1'', ascii ''X'', ascii ''5'', ascii ''180'')"

subsection \<open>Predicates on states and more example rows\<close>

text \<open>The first block object of the store is the block \<open>n\<close>, \<open>nm\<close>, and it is or will be the
  first entry of the result.\<close>

definition first_block :: "int \<Rightarrow> ustring \<Rightarrow> 'f state \<Rightarrow> bool" where
  "first_block n nm s \<longleftrightarrow>
     bheap s \<noteq> [] \<and> block_number (bheap s ! 0) = n \<and> block_name (bheap s ! 0) = nm \<and>
     (case st_blocks s of [] \<Rightarrow> current_block s = Some 0 | b # bs \<Rightarrow> b = 0 \<and> current_block s \<noteq> None)"

text \<open>Rows for the examples: a block header, a module header, a module with negative
  credits, a module named \<open>Praktika\<close> (U+041F and the keyword's letters), and a
  discipline of semester 5.\<close>

definition row_B1 :: row where
  "row_B1 = ([], Blok @ ascii '' 1. A'', ascii ''10'', ascii ''360'')"

definition row_M :: row where
  "row_M = ([], ascii ''M'', ascii ''3'', ascii ''108'')"

definition row_neg :: row where
  "row_neg = ([], ascii ''M'', ascii ''-5'', ascii ''10'')"

definition Praktika_cap :: ustring where
  "Praktika_cap = [1055, 1088, 1072, 1082, 1090, 1080, 1082, 1072]"

definition row_P :: row where
  "row_P = ([], Praktika_cap, ascii ''6'', ascii ''216'')"

definition row_sem5 :: row where
  "row_sem5 = (ascii ''5'', ascii ''X'', ascii ''5'', ascii ''180'')"

text \<open>The counts of the four buckets, in the order of the dictionary.\<close>

definition bucket_counts :: "'f summary \<Rightarrow> nat list" where
  "bucket_counts sm =
     map (\<lambda>k. case semester_distribution sm k of None \<Rightarrow> 0 | Some b \<Rightarrow> b_disciplines b)
       [1, 2, 3, 4]"

text \<open>A discipline whose semester is none of the four keys, and the tree without such
  disciplines.\<close>

definition out_of_range :: "'f discipline \<Rightarrow> bool" where
  "out_of_range d = (case semester d of None \<Rightarrow> False | Some k \<Rightarrow> k \<notin> {1, 2, 3, 4})"

definition without_out_of_range :: "('f, 'f module) block list \<Rightarrow> ('f, 'f module) block list" where
  "without_out_of_range bs =
     map (\<lambda>b. b\<lparr>modules :=
            map (\<lambda>m. m\<lparr>disciplines := filter (\<lambda>d. \<not> out_of_range d) (disciplines m)\<rparr>)
              (modules b)\<rparr>) bs"

text \<open>More rows for the examples: a header that matches the short pattern only, a
  header and a discipline row with unreadable hours, a discipline row of semester 1, and
  a second row that could be a module.\<close>

definition row_short_header :: row where
  "row_short_header = ([], Blok @ ascii '' 2.'', [], [])"

definition row_bad_hours :: row where
  "row_bad_hours = ([], Blok @ ascii '' 1. A'', ascii ''10'', ascii ''abc'')"

definition row_d1 :: row where
  "row_d1 = (ascii ''1'', ascii ''X'', ascii ''5'', ascii ''180'')"

definition row_d1_bad :: row where
  "row_d1_bad = (ascii ''1'', ascii ''X'', ascii ''5'', ascii ''abc'')"

definition row_S :: row where
  "row_S = ([], ascii ''S'', ascii ''2'', ascii ''72'')"

text \<open>A row that passes the guard of the first branch also matches the full pattern.\<close>

definition header_full :: "'f py \<Rightarrow> row \<Rightarrow> bool" where
  "header_full py r =
     (case r of (c1, c2, c3, c4) \<Rightarrow>
        \<not> (strip c1 = [] \<and> contains Blok (strip c2) \<and> re_block_short py (strip c2)) \<or>
        re_block_full py (strip c2) \<noteq> None)"

text \<open>The blocks opened so far, in their order: those in the list and the open one.\<close>

definition opened :: "'f state \<Rightarrow> nat list" where
  "opened s = st_blocks s @ (case current_block s of None \<Rightarrow> [] | Some b \<Rightarrow> [b])"

definition totals_ok :: "'f::{zero,plus,ord} state \<Rightarrow> bool" where
  "totals_ok s \<longleftrightarrow>
     (\<forall>b \<in> set (opened s). b < length (bheap s)) \<and>
     st_total_hours s = sum_list (map (\<lambda>b. total_hours (bheap s ! b)) (opened s)) \<and>
     st_total_credits s = foldl num_add PyInt0 (map (\<lambda>b. total_credits (bheap s ! b)) (opened s))"

text \<open>The guard of the first branch of the loop, without the test of the full pattern.\<close>

definition header_guard :: "'f py \<Rightarrow> ustring \<Rightarrow> ustring \<Rightarrow> bool" where
  "header_guard py c1 c2 \<longleftrightarrow>
     strip c1 = [] \<and> contains Blok (strip c2) \<and> re_block_short py (strip c2)"






definition row_sem5_bad :: row where
  "row_sem5_bad = (ascii ''5'', ascii ''X'', ascii ''5'', ascii ''abc'')"

section \<open>Running the model\<close>

lemmas run_defs =
  parse_curriculum_csv_def step_def Let_def seal_block_def open_block_def open_module_def
  append_discipline_def module_guard_def credits_hours_or_zero_def try_credits_hours_def
  init_state_def deref_block_def program_title_def
  re_block_short_def re_block_full_def block_digits_def re_digits_def
  int_of_def int_of_unsigned_def digits_value_def is_digit_def
  strip_def isspace_def ascii_def Blok_def num_add_def num_pos_def
  py0_def digit_val0_def float_of0_def float_of_unsigned0_def dec_value_def

text \<open>
  C6. Scenario A: the single row with empty first cell, the label \<open>Blok 1. Distsipliny\<close>,
  credits \<open>10\<close> and hours \<open>360\<close> gives exactly one block, with number 1, name
  \<open>Distsipliny\<close>, 10 credits, 360 hours and no modules, and the totals of the program are
  10 credits and 360 hours.
\<close>

theorem scenario_A_single_block:
  "blocks (parse_curriculum_csv py0 [row_A]) =
     [\<lparr>block_number = 1, block_name = Distsipliny, total_credits = PyFloat 10, total_hours = 360,
       modules = []\<rparr>] \<and>
   pi_total_credits (program_info (parse_curriculum_csv py0 [row_A])) = PyFloat 10 \<and>
   pi_total_hours (program_info (parse_curriculum_csv py0 [row_A])) = 360"
  by (simp add: run_defs row_A_def Distsipliny_def)

section \<open>The steps of the loop and what they keep\<close>

text \<open>Each turn of the loop does one of five things.\<close>

lemma step_disj:
  "step py s r = s \<or> step py s r = seal_block s \<or>
   (\<exists>n nm cr hr. step py s r = open_block n nm cr hr (seal_block s)) \<or>
   (\<exists>b nm cr hr. current_block s = Some b \<and> (num_pos cr \<or> 0 < hr) \<and>
      step py s r = open_module b nm cr hr s) \<or>
   (\<exists>k nm cr hr. step py s r =
      append_discipline \<lparr>semester = Some k, name = nm, credits = cr, hours = hr\<rparr> s)"
proof (cases r)
  case (fields c1 c2 c3 c4)
  show ?thesis
    unfolding fields step_def Let_def
    by (simp split: option.splits prod.splits) blast
qed

lemma step_cases:
  obtains (skip) "step py s r = s"
  | (seal) "step py s r = seal_block s"
  | (block) n nm cr hr where "step py s r = open_block n nm cr hr (seal_block s)"
  | (module) b nm cr hr where "current_block s = Some b" and "num_pos cr \<or> 0 < hr"
      and "step py s r = open_module b nm cr hr s"
  | (disc) k nm cr hr where
      "step py s r = append_discipline \<lparr>semester = Some k, name = nm, credits = cr, hours = hr\<rparr> s"
  using step_disj [of py s r] by blast

lemma wf_init: "wf init_state"
  by (simp add: wf_def init_state_def)

lemma wf_seal: "wf s \<Longrightarrow> wf (seal_block s)"
  by (auto simp: wf_def seal_block_def split: option.splits)

lemma wf_open_block: "wf s \<Longrightarrow> wf (open_block n nm cr hr s)"
  by (auto simp: wf_def open_block_def less_Suc_eq)

lemma wf_open_module: "wf s \<Longrightarrow> current_block s = Some b \<Longrightarrow> wf (open_module b nm cr hr s)"
  by (auto simp: wf_def open_module_def less_Suc_eq dest!: set_update_subset_insert [THEN subsetD])
     (metis nth_mem)

lemma wf_append_discipline: "wf s \<Longrightarrow> wf (append_discipline d s)"
  by (auto simp: wf_def append_discipline_def split: option.splits)

lemma wf_step: "wf s \<Longrightarrow> wf (step py s r)"
  by (rule step_cases [of py s r])
     (simp_all add: wf_seal wf_open_block wf_open_module wf_append_discipline)

lemma wf_foldl: "wf s \<Longrightarrow> wf (foldl (step py) s rs)"
  by (induction rs arbitrary: s) (simp_all add: wf_step)

lemma wf_final: "wf (final_state py rows)"
  by (simp add: final_state_def wf_seal wf_foldl wf_init)

lemma blocks_parse:
  "blocks (parse_curriculum_csv py rows) =
     map (deref_block (final_state py rows)) (st_blocks (final_state py rows))"
  by (simp add: parse_curriculum_csv_def final_state_def Let_def)

lemma summary_parse:
  "summary (parse_curriculum_csv py rows) =
     extract_summary_info py (blocks (parse_curriculum_csv py rows))"
  by (simp add: parse_curriculum_csv_def Let_def)

lemma modules_deref_in_heap:
  assumes "wf s" and "b \<in> set (st_blocks s)"
  shows "set (modules (deref_block s b)) \<subseteq> set (mheap s)"
proof -
  from assms have "b < length (bheap s)" by (simp add: wf_def)
  then have "bheap s ! b \<in> set (bheap s)" by simp
  with assms(1) have "\<forall>m \<in> set (modules (bheap s ! b)). m < length (mheap s)"
    by (simp add: wf_def)
  then show ?thesis by (auto simp: deref_block_def Let_def)
qed

lemma all_modules_in_heap:
  "set (all_modules (blocks (parse_curriculum_csv py rows))) \<subseteq> set (mheap (final_state py rows))"
  using modules_deref_in_heap [OF wf_final]
  by (auto simp: all_modules_def blocks_parse)

lemma heap_all_seal: "heap_all P (seal_block s) = heap_all P s"
  by (simp add: heap_all_def seal_block_def split: option.splits)

lemma heap_all_open_block: "heap_all P (open_block n nm cr hr s) = heap_all P s"
  by (simp add: heap_all_def open_block_def)

lemma heap_all_open_module:
  "heap_all P s \<Longrightarrow> P \<lparr>module_name = nm, m_credits = cr, m_hours = hr, disciplines = []\<rparr> \<Longrightarrow>
     heap_all P (open_module b nm cr hr s)"
  by (simp add: heap_all_def open_module_def)

lemma heap_all_append_discipline:
  assumes "heap_all P s"
    and "\<And>m. P m \<Longrightarrow> P (m\<lparr>disciplines := disciplines m @ [d]\<rparr>)"
  shows "heap_all P (append_discipline d s)"
proof (cases "current_module s")
  case None
  with assms(1) show ?thesis by (simp add: append_discipline_def)
next
  case (Some m)
  have "list_all P ((mheap s)[m := (mheap s ! m)\<lparr>disciplines := disciplines (mheap s ! m) @ [d]\<rparr>])"
  proof (cases "m < length (mheap s)")
    case True
    with assms show ?thesis
      by (auto simp: heap_all_def list_all_iff dest!: set_update_subset_insert [THEN subsetD])
  next
    case False
    with assms(1) show ?thesis by (simp add: heap_all_def list_update_beyond)
  qed
  with Some show ?thesis by (simp add: append_discipline_def heap_all_def)
qed

lemma step_sem_ok: "heap_all sem_ok s \<Longrightarrow> heap_all sem_ok (step py s r)"
  by (rule step_cases [of py s r])
     (auto simp: heap_all_seal heap_all_open_block sem_ok_def
        intro!: heap_all_open_module heap_all_append_discipline)

lemma step_positive: "heap_all positive s \<Longrightarrow> heap_all positive (step py s r)"
  by (rule step_cases [of py s r])
     (auto simp: heap_all_seal heap_all_open_block positive_def
        intro!: heap_all_open_module heap_all_append_discipline)

lemma foldl_heap_all:
  assumes "\<And>s r. heap_all P s \<Longrightarrow> heap_all P (step py s r)"
  shows "heap_all P s \<Longrightarrow> heap_all P (foldl (step py) s rs)"
  by (induction rs arbitrary: s) (simp_all add: assms)

lemma final_sem_ok: "heap_all sem_ok (final_state py rows)"
  unfolding final_state_def heap_all_seal
  by (rule foldl_heap_all) (simp_all add: step_sem_ok, simp add: heap_all_def init_state_def)

lemma final_positive: "heap_all positive (final_state py rows)"
  unfolding final_state_def heap_all_seal
  by (rule foldl_heap_all) (simp_all add: step_positive, simp add: heap_all_def init_state_def)

lemma every_discipline_has_semester:
  "\<forall>d \<in> set (all_disciplines (blocks (parse_curriculum_csv py rows))). semester d \<noteq> None"
  using all_modules_in_heap [of py rows] final_sem_ok [of py rows]
  by (fastforce simp: all_disciplines_def heap_all_def sem_ok_def list_all_iff)

lemma every_module_positive:
  "\<forall>m \<in> set (all_modules (blocks (parse_curriculum_csv py rows))). num_pos (m_credits m) \<or> 0 < m_hours m"
  using all_modules_in_heap [of py rows] final_positive [of py rows]
  by (fastforce simp: heap_all_def positive_def list_all_iff)

section \<open>The aggregator as a function of the tree\<close>

lemma startswith_append: "startswith s (p @ q) \<Longrightarrow> startswith s p"
  by (induction s p rule: startswith.induct) simp_all

lemma contains_append: "contains (p @ q) s \<Longrightarrow> contains p s"
  by (induction s) (auto dest: startswith_append)

lemma is_practical_keyword: "is_practical py m = has_keyword py m"
  by (auto simp: is_practical_def has_keyword_def praktika_def dest: contains_append)

lemma acc_bucket_zero: "acc_bucket zero_bucket ds = bucket_of ds"
proof -
  have "foldl add_to_bucket b ds =
      \<lparr>b_credits = foldl num_add (b_credits b) (map credits ds),
       b_hours = foldl (+) (b_hours b) (map hours ds),
       b_disciplines = b_disciplines b + length ds\<rparr>" for b :: "'a bucket"
    by (induction ds arbitrary: b) (simp_all add: add_to_bucket_def)
  then show ?thesis by (simp add: acc_bucket_def bucket_of_def zero_bucket_def)
qed

lemma acc_work_zero: "acc_work zero_work ms = work_of ms"
proof -
  have "foldl add_work w ms =
      \<lparr>w_total_credits = foldl num_add (w_total_credits w) (map m_credits ms),
       w_total_hours = foldl (+) (w_total_hours w) (map m_hours ms)\<rparr>" for w :: "'a work"
    by (induction ms arbitrary: w) (simp_all add: add_work_def)
  then show ?thesis by (simp add: acc_work_def work_of_def zero_work_def)
qed

lemma acc_bucket_Cons: "acc_bucket b (d # ds) = acc_bucket (add_to_bucket b d) ds"
  by (simp add: acc_bucket_def)

lemma acc_bucket_append: "acc_bucket (acc_bucket b ds) es = acc_bucket b (ds @ es)"
  by (simp add: acc_bucket_def)

lemma acc_work_append: "acc_work (acc_work w ms) ns = acc_work w (ms @ ns)"
  by (simp add: acc_work_def)

lemma in_semester_append: "in_semester k (ds @ es) = in_semester k ds @ in_semester k es"
  by (simp add: in_semester_def)

lemma distribute_Nil: "distribute sd [] = sd"
  by (simp add: distribute_def in_semester_def acc_bucket_def option.map_ident)

lemma distribute_append: "distribute (distribute sd ds) es = distribute sd (ds @ es)"
  by (rule ext)
     (simp add: distribute_def option.map_comp comp_def acc_bucket_append in_semester_append)

lemma summary_discipline_distribute:
  "summary_discipline sm d = sm\<lparr>semester_distribution := distribute (semester_distribution sm) [d]\<rparr>"
proof -
  have "semester_distribution (summary_discipline sm d) = distribute (semester_distribution sm) [d]"
    by (rule ext)
       (simp add: summary_discipline_def distribute_def acc_bucket_def in_semester_def
          option.map_ident split: option.splits)
  moreover have "summary_discipline sm d =
      sm\<lparr>semester_distribution := semester_distribution (summary_discipline sm d)\<rparr>"
    by (simp add: summary_discipline_def split: option.splits)
  ultimately show ?thesis by simp
qed

lemma foldl_summary_discipline:
  "foldl summary_discipline sm ds =
     sm\<lparr>semester_distribution := distribute (semester_distribution sm) ds\<rparr>"
proof (induction ds arbitrary: sm)
  case Nil
  show ?case by (simp add: distribute_Nil)
next
  case (Cons d ds)
  have "foldl summary_discipline sm (d # ds) = foldl summary_discipline (summary_discipline sm d) ds"
    by simp
  also have "\<dots> = (summary_discipline sm d)
      \<lparr>semester_distribution := distribute (semester_distribution (summary_discipline sm d)) ds\<rparr>"
    by (rule Cons.IH)
  also have "\<dots> = sm\<lparr>semester_distribution := distribute (semester_distribution sm) (d # ds)\<rparr>"
    using distribute_append [of "semester_distribution sm" "[d]" ds]
    by (simp add: summary_discipline_distribute [of sm d])
  finally show ?case .
qed

lemma advance_append:
  "advance py (advance py sm n ms) n' ms' = advance py sm (n + n') (ms @ ms')"
  by (simp add: advance_def acc_work_append distribute_append)

lemma count_modules_advance: "sm\<lparr>modules_count := modules_count sm + n\<rparr> = advance py sm n []"
  by (simp add: advance_def acc_work_def distribute_Nil)

lemma summary_module_advance: "summary_module py sm m = advance py sm 0 [m]"
  by (simp add: summary_module_def Let_def foldl_summary_discipline advance_def
      is_practical_keyword acc_work_def)

lemma foldl_summary_module: "foldl (summary_module py) sm ms = advance py sm 0 ms"
proof (induction ms arbitrary: sm)
  case Nil
  show ?case using count_modules_advance [of sm 0 py] by simp
next
  case (Cons m ms)
  have "foldl (summary_module py) sm (m # ms) = foldl (summary_module py) (summary_module py sm m) ms"
    by simp
  also have "\<dots> = advance py (summary_module py sm m) 0 ms"
    by (rule Cons.IH)
  also have "\<dots> = advance py sm 0 (m # ms)"
    using advance_append [of py sm 0 "[m]" 0 ms] by (simp add: summary_module_advance)
  finally show ?case .
qed

lemma summary_block_advance:
  "summary_block py sm b = advance py sm (length (modules b)) (modules b)"
  using advance_append [of py sm "length (modules b)" "[]" 0 "modules b"]
  by (simp add: summary_block_def foldl_summary_module count_modules_advance [of _ _ py])

lemma foldl_summary_block:
  "foldl (summary_block py) sm bs = advance py sm (length (all_modules bs)) (all_modules bs)"
proof (induction bs arbitrary: sm)
  case Nil
  show ?case using count_modules_advance [of sm 0 py] by (simp add: all_modules_def)
next
  case (Cons b bs)
  have "foldl (summary_block py) sm (b # bs) = foldl (summary_block py) (summary_block py sm b) bs"
    by simp
  also have "\<dots> = advance py (summary_block py sm b) (length (all_modules bs)) (all_modules bs)"
    by (rule Cons.IH)
  also have "\<dots> = advance py sm (length (all_modules (b # bs))) (all_modules (b # bs))"
    using advance_append [of py sm "length (modules b)" "modules b"
        "length (all_modules bs)" "all_modules bs"]
    by (simp add: summary_block_advance all_modules_def)
  finally show ?case .
qed

lemma distribute_init:
  "distribute [1 \<mapsto> zero_bucket, 2 \<mapsto> zero_bucket, 3 \<mapsto> zero_bucket, 4 \<mapsto> zero_bucket] ds =
     (\<lambda>k. if k \<in> {1, 2, 3, 4} then Some (bucket_of (in_semester k ds)) else None)"
  by (rule ext) (simp add: distribute_def acc_bucket_zero)

lemma extract_summary_info_spec: "extract_summary_info py bs = summary_spec py bs"
  unfolding summary_spec_def all_disciplines_def
  by (simp add: extract_summary_info_def foldl_summary_block advance_def init_summary_def
      acc_work_zero distribute_init)

section \<open>Rows that leave the state as it is\<close>

lemma step_blank: "step py s blank = s"
  by (simp add: step_def blank_def)

lemma parse_final:
  "parse_curriculum_csv py rows =
     (let s = final_state py rows; bs = map (deref_block s) (st_blocks s)
      in \<lparr>program_info =
            \<lparr>title = program_title rows, university = ITMO, level = magistratura,
             pi_total_credits = st_total_credits s, pi_total_hours = st_total_hours s\<rparr>,
          blocks = bs,
          summary = extract_summary_info py bs\<rparr>)"
  by (simp add: parse_curriculum_csv_def final_state_def Let_def)

lemma parse_same_state:
  assumes "final_state py rows = final_state py rows'"
  shows "parse_curriculum_csv py rows = with_title (program_title rows) (parse_curriculum_csv py rows')"
  by (simp add: parse_final assms with_title_def Let_def)

lemma final_state_skip:
  assumes "step py (foldl (step py) init_state xs) r = foldl (step py) init_state xs"
  shows "final_state py (xs @ r # ys) = final_state py (xs @ ys)"
  by (simp add: final_state_def assms)

lemma program_title_later: "xs \<noteq> [] \<Longrightarrow> program_title (xs @ r # ys) = program_title (xs @ ys)"
  by (cases xs) (simp_all add: program_title_def)

lemma with_title_same: "with_title (program_title rows) (parse_curriculum_csv py rows) = parse_curriculum_csv py rows"
  by (simp add: parse_final with_title_def Let_def)

lemma parse_skip:
  assumes "step py (foldl (step py) init_state xs) r = foldl (step py) init_state xs"
  shows "parse_curriculum_csv py (xs @ r # ys) =
           with_title (program_title (xs @ r # ys)) (parse_curriculum_csv py (xs @ ys))"
    and "xs \<noteq> [] \<Longrightarrow> parse_curriculum_csv py (xs @ r # ys) = parse_curriculum_csv py (xs @ ys)"
proof -
  show a: "parse_curriculum_csv py (xs @ r # ys) =
           with_title (program_title (xs @ r # ys)) (parse_curriculum_csv py (xs @ ys))"
    by (rule parse_same_state) (rule final_state_skip [OF assms])
  show "parse_curriculum_csv py (xs @ r # ys) = parse_curriculum_csv py (xs @ ys)" if "xs \<noteq> []"
    using a program_title_later [OF that, of r ys] with_title_same [of "xs @ ys" py] by simp
qed

lemma step_orphan:
  assumes "re_digits py (strip c1)" and "current_module s = None"
  shows "step py s (c1, c2, c3, c4) = s"
proof -
  from assms(1) have ne: "strip c1 \<noteq> []" by (simp add: re_digits_def)
  then have "c1 \<noteq> []" by (auto simp: strip_def)
  with ne assms(2) show ?thesis
    by (simp add: step_def Let_def module_guard_def append_discipline_def
        split: option.splits prod.splits)
qed

text \<open>
  C7 (as amended). A blank row leaves the state of the loop as it is. Inserting it
  anywhere gives the same blocks, totals and summary; the whole result is the same but
  for the title, which is the first cell of the first row, so it is the same when the
  blank row is not put first.
\<close>

theorem blank_row_skipped:
  "step py s blank = s \<and>
   parse_curriculum_csv py (xs @ blank # ys) =
     with_title (program_title (xs @ blank # ys)) (parse_curriculum_csv py (xs @ ys)) \<and>
   (xs \<noteq> [] \<longrightarrow> parse_curriculum_csv py (xs @ blank # ys) = parse_curriculum_csv py (xs @ ys))"
  using parse_skip [of py xs blank ys] by (simp add: step_blank)

theorem blank_row_skipped_witness:
  "parse_curriculum_csv py0 ([row_A] @ blank # [row_T]) = parse_curriculum_csv py0 ([row_A] @ [row_T])"
proof -
  have "[row_A] \<noteq> []" by simp
  with blank_row_skipped [of py0 init_state "[row_A]" "[row_T]"] show ?thesis by blast
qed

theorem blank_first_row_changes_title:
  "title (program_info (parse_curriculum_csv py0 ([] @ blank # [row_T]))) = [] \<and>
   title (program_info (parse_curriculum_csv py0 ([] @ [row_T]))) = ascii ''T'' \<and>
   parse_curriculum_csv py0 ([] @ blank # [row_T]) \<noteq> parse_curriculum_csv py0 ([] @ [row_T])"
proof -
  have a: "title (program_info (parse_curriculum_csv py0 ([] @ blank # [row_T]))) = []"
    by (simp add: parse_curriculum_csv_def Let_def program_title_def blank_def)
  have b: "title (program_info (parse_curriculum_csv py0 ([] @ [row_T]))) = ascii ''T''"
    by (simp add: parse_curriculum_csv_def Let_def program_title_def row_T_def)
  have "ascii ''T'' \<noteq> []" by (simp add: ascii_def)
  with a b show ?thesis by metis
qed

text \<open>
  C8 (as amended). A discipline row (first cell all digits) that comes while no module
  is open leaves the state of the loop as it is, and nothing is raised: every call that
  can raise stands in the \<open>try\<close> of that branch. The blocks, totals and summary are those
  of the input without the row; the whole result is the same but for the title, so it
  is the same when the row is not the first one.
\<close>

theorem orphan_discipline_dropped:
  assumes "re_digits py (strip c1)" and "strip c2 \<noteq> []" and "strip c3 \<noteq> []" and "strip c4 \<noteq> []"
    and "current_module (foldl (step py) init_state xs) = None"
  shows "step py (foldl (step py) init_state xs) (c1, c2, c3, c4) = foldl (step py) init_state xs \<and>
    parse_curriculum_csv py (xs @ (c1, c2, c3, c4) # ys) =
      with_title (program_title (xs @ (c1, c2, c3, c4) # ys)) (parse_curriculum_csv py (xs @ ys)) \<and>
    (xs \<noteq> [] \<longrightarrow>
      parse_curriculum_csv py (xs @ (c1, c2, c3, c4) # ys) = parse_curriculum_csv py (xs @ ys))"
  using parse_skip [of py xs "(c1, c2, c3, c4)" ys] step_orphan [OF assms(1) assms(5)]
  by simp

lemma row_orphan_cells:
  "re_digits py0 (strip (ascii ''1''))" "strip (ascii ''X'') \<noteq> []" "strip (ascii ''5'') \<noteq> []"
  "strip (ascii ''180'') \<noteq> []"
  by (simp_all add: run_defs)

theorem orphan_discipline_dropped_witness:
  "parse_curriculum_csv py0 ([row_A] @ row_orphan # []) = parse_curriculum_csv py0 ([row_A] @ [])"
proof -
  have m: "current_module (foldl (step py0) init_state [row_A]) = None"
    by (simp add: run_defs row_A_def Distsipliny_def)
  have "[row_A] \<noteq> []" by simp
  with orphan_discipline_dropped [OF row_orphan_cells m, of "[]"] show ?thesis
    unfolding row_orphan_def by blast
qed

theorem orphan_first_row_changes_title:
  "re_digits py0 (strip (ascii ''1'')) \<and>
   current_module (foldl (step py0) (init_state :: real state) []) = None \<and>
   title (program_info (parse_curriculum_csv py0 ([] @ row_orphan # []))) = ascii ''1'' \<and>
   title (program_info (parse_curriculum_csv py0 ([] @ []))) = default_title \<and>
   parse_curriculum_csv py0 ([] @ row_orphan # []) \<noteq> parse_curriculum_csv py0 ([] @ [])"
proof -
  have a: "title (program_info (parse_curriculum_csv py0 ([] @ row_orphan # []))) = ascii ''1''"
    by (simp add: parse_curriculum_csv_def Let_def program_title_def row_orphan_def)
  have b: "title (program_info (parse_curriculum_csv py0 ([] @ []))) = default_title"
    by (simp add: parse_curriculum_csv_def Let_def program_title_def)
  have c: "ascii ''1'' \<noteq> default_title" by (simp add: ascii_def default_title_def)
  have d: "current_module (foldl (step py0) (init_state :: real state) []) = None"
    by (simp add: init_state_def)
  from a b c have "parse_curriculum_csv py0 ([] @ row_orphan # []) \<noteq> parse_curriculum_csv py0 ([] @ [])"
    by metis
  with a b d row_orphan_cells(1) show ?thesis by simp
qed

section \<open>The title and the first row\<close>

lemma first_block_seal: "first_block n nm s \<Longrightarrow> first_block n nm (seal_block s)"
  by (auto simp: first_block_def seal_block_def split: option.splits list.splits)

lemma first_block_seal_nonempty: "first_block n nm s \<Longrightarrow> st_blocks (seal_block s) \<noteq> []"
  by (auto simp: first_block_def seal_block_def split: option.splits list.splits)

lemma first_block_open_block:
  "first_block n nm s \<Longrightarrow> st_blocks s \<noteq> [] \<Longrightarrow> first_block n nm (open_block n' nm' cr hr s)"
  by (auto simp: first_block_def open_block_def nth_append split: list.splits)

lemma first_block_open_module: "first_block n nm s \<Longrightarrow> first_block n nm (open_module b nm' cr hr s)"
proof (cases "b < length (bheap s)")
  case True
  assume "first_block n nm s"
  with True show ?thesis
    by (cases "b = 0") (auto simp: first_block_def open_module_def split: list.splits)
next
  case False
  assume "first_block n nm s"
  with False show ?thesis
    by (auto simp: first_block_def open_module_def list_update_beyond split: list.splits)
qed

lemma first_block_append_discipline: "first_block n nm s \<Longrightarrow> first_block n nm (append_discipline d s)"
  by (auto simp: first_block_def append_discipline_def split: option.splits list.splits)

lemma first_block_step: "first_block n nm s \<Longrightarrow> first_block n nm (step py s r)"
  by (rule step_cases [of py s r])
     (simp_all add: first_block_seal first_block_open_block first_block_seal_nonempty
        first_block_open_module first_block_append_discipline)

lemma first_block_foldl: "first_block n nm s \<Longrightarrow> first_block n nm (foldl (step py) s rs)"
  by (induction rs arbitrary: s) (simp_all add: first_block_step)

lemma first_block_header:
  assumes "strip c1 = []" and "contains Blok (strip c2)" and "re_block_short py (strip c2)"
    and "re_block_full py (strip c2) = Some (n, nm)"
  shows "first_block n nm (step py init_state (c1, c2, c3, c4))"
proof -
  from assms(2) have "strip c2 \<noteq> []" by (auto simp: Blok_def)
  then have "c2 \<noteq> []" by (auto simp: strip_def)
  with assms show ?thesis
    by (simp add: step_def Let_def first_block_def seal_block_def init_state_def open_block_def
        split: prod.splits)
qed

lemma first_block_result:
  assumes "first_block n nm s"
  shows "map (deref_block (seal_block s)) (st_blocks (seal_block s)) \<noteq> [] \<and>
         block_number (hd (map (deref_block (seal_block s)) (st_blocks (seal_block s)))) = n \<and>
         block_name (hd (map (deref_block (seal_block s)) (st_blocks (seal_block s)))) = nm"
proof -
  from assms have a: "first_block n nm (seal_block s)" by (rule first_block_seal)
  from assms have b: "st_blocks (seal_block s) \<noteq> []" by (rule first_block_seal_nonempty)
  then obtain b0 bs where c: "st_blocks (seal_block s) = b0 # bs" by (cases "st_blocks (seal_block s)") auto
  with a have "b0 = 0" by (simp add: first_block_def)
  with a c show ?thesis by (simp add: first_block_def deref_block_def Let_def)
qed

section \<open>The modules and the split of the work\<close>

lemmas example_rows = row_B1_def row_M_def row_neg_def row_P_def row_sem5_def Praktika_cap_def

lemma tree_neg_P:
  "blocks (parse_curriculum_csv py0 [row_B1, row_neg, row_P]) =
     [\<lparr>block_number = 1, block_name = ascii ''A'', total_credits = PyFloat 10, total_hours = 360,
       modules =
         [\<lparr>module_name = ascii ''M'', m_credits = PyFloat (- 5), m_hours = 10, disciplines = []\<rparr>,
          \<lparr>module_name = Praktika_cap, m_credits = PyFloat 6, m_hours = 216, disciplines = []\<rparr>]\<rparr>]"
  by (simp add: run_defs example_rows)

lemma tree_sem5:
  "blocks (parse_curriculum_csv py0 [row_B1, row_M, row_sem5]) =
     [\<lparr>block_number = 1, block_name = ascii ''A'', total_credits = PyFloat 10, total_hours = 360,
       modules =
         [\<lparr>module_name = ascii ''M'', m_credits = PyFloat 3, m_hours = 108,
           disciplines = [\<lparr>semester = Some 5, name = ascii ''X'', credits = PyFloat 5, hours = 180\<rparr>]\<rparr>]\<rparr>]"
  by (simp add: run_defs example_rows)

text \<open>
  C4 (as amended). Every module of the result has credits greater than zero or hours
  greater than zero (so one of the two may be negative). Its credits and hours are
  added to exactly one of \<open>practical_work\<close> and \<open>theoretical_work\<close>: \<open>practical_work\<close> is
  the running sum over the modules whose lowercased name contains the keyword, in the
  order of the tree, and \<open>theoretical_work\<close> the running sum over all the others.
\<close>

theorem module_positive_and_split:
  "(\<forall>m \<in> set (all_modules (blocks (parse_curriculum_csv py rows))).
      num_pos (m_credits m) \<or> 0 < m_hours m) \<and>
   practical_work (summary (parse_curriculum_csv py rows)) =
     work_of (filter (has_keyword py) (all_modules (blocks (parse_curriculum_csv py rows)))) \<and>
   theoretical_work (summary (parse_curriculum_csv py rows)) =
     work_of (filter (\<lambda>m. \<not> has_keyword py m) (all_modules (blocks (parse_curriculum_csv py rows))))"
  using every_module_positive [of py rows]
  by (simp add: summary_parse extract_summary_info_spec summary_spec_def)

theorem module_positive_and_split_witness:
  "practical_work (summary (parse_curriculum_csv py0 [row_B1, row_neg, row_P])) =
     \<lparr>w_total_credits = PyFloat 6, w_total_hours = 216\<rparr> \<and>
   theoretical_work (summary (parse_curriculum_csv py0 [row_B1, row_neg, row_P])) =
     \<lparr>w_total_credits = PyFloat (- 5), w_total_hours = 10\<rparr>"
proof -
  have k: "has_keyword py0 \<lparr>module_name = Praktika_cap, m_credits = PyFloat 6, m_hours = 216, disciplines = []\<rparr>"
    "\<not> has_keyword py0 \<lparr>module_name = ascii ''M'', m_credits = PyFloat (- 5), m_hours = 10, disciplines = []\<rparr>"
    by (simp_all add: has_keyword_def py0_def lower_char0_def praktik_def Praktika_cap_def ascii_def)
  from module_positive_and_split [of py0 "[row_B1, row_neg, row_P]"] show ?thesis
    unfolding tree_neg_P
    by (simp add: all_modules_def k work_of_def num_add_def)
qed

theorem module_with_negative_credits:
  "map m_credits (all_modules (blocks (parse_curriculum_csv py0 [row_B1, row_neg, row_P]))) =
     [PyFloat (- 5), PyFloat 6] \<and>
   to_float (PyFloat (- 5)) < (0 :: real)"
  by (simp add: tree_neg_P all_modules_def)

section \<open>The semester buckets\<close>

lemma in_semester_counts:
  "sum_list (map (\<lambda>k. length (in_semester k ds)) [1, 2, 3, 4]) \<le> length ds"
  by (induction ds) (auto simp: in_semester_def)

lemma bucket_counts_spec:
  "bucket_counts (summary_spec py bs) =
     map (\<lambda>k. length (in_semester k (all_disciplines bs))) [1, 2, 3, 4]"
  by (simp add: bucket_counts_def summary_spec_def bucket_of_def)

text \<open>
  C5 (as amended). A discipline with a semester value between 1 and 4 is added to
  exactly one bucket, the bucket of its semester: the bucket of \<open>k\<close> holds the running
  sums and the number of exactly the disciplines of the tree with semester \<open>k\<close>. There is
  no other bucket, so a discipline with another semester value is added to none. The
  counts of the four buckets sum to at most \<open>total_disciplines\<close>.
\<close>

theorem semester_buckets:
  "(\<forall>k \<in> {1, 2, 3, 4}.
      semester_distribution (summary (parse_curriculum_csv py rows)) k =
        Some (bucket_of (in_semester k (all_disciplines (blocks (parse_curriculum_csv py rows)))))) \<and>
   (\<forall>k. k \<notin> {1, 2, 3, 4} \<longrightarrow>
      semester_distribution (summary (parse_curriculum_csv py rows)) k = None) \<and>
   sum_list (bucket_counts (summary (parse_curriculum_csv py rows)))
     \<le> total_disciplines (summary (parse_curriculum_csv py rows))"
proof -
  let ?bs = "blocks (parse_curriculum_csv py rows)"
  have s: "summary (parse_curriculum_csv py rows) = summary_spec py ?bs"
    by (simp add: summary_parse extract_summary_info_spec)
  have "sum_list (bucket_counts (summary_spec py ?bs)) \<le> total_disciplines (summary_spec py ?bs)"
    using in_semester_counts [of "all_disciplines ?bs"]
    by (simp only: bucket_counts_spec) (simp add: summary_spec_def)
  then show ?thesis
    unfolding s by (simp add: summary_spec_def)
qed

theorem semester_buckets_witness:
  "semester_distribution (summary (parse_curriculum_csv py0 [row_B1, row_M, row_sem5])) 1 =
     Some \<lparr>b_credits = PyInt0, b_hours = 0, b_disciplines = 0\<rparr> \<and>
   semester_distribution (summary (parse_curriculum_csv py0 [row_B1, row_M, row_sem5])) 5 = None"
proof -
  have a: "(1::int) \<in> {1, 2, 3, 4}" and b: "(5::int) \<notin> {1, 2, 3, 4}" by simp_all
  from semester_buckets [of py0 "[row_B1, row_M, row_sem5]"] a b
  have "semester_distribution (summary (parse_curriculum_csv py0 [row_B1, row_M, row_sem5])) 1 =
      Some (bucket_of (in_semester 1
        (all_disciplines (blocks (parse_curriculum_csv py0 [row_B1, row_M, row_sem5])))))"
    and "semester_distribution (summary (parse_curriculum_csv py0 [row_B1, row_M, row_sem5])) 5 = None"
    by blast+
  then show ?thesis
    unfolding tree_sem5
    by (simp add: all_disciplines_def all_modules_def in_semester_def bucket_of_def)
qed

theorem semester_five_in_no_bucket:
  "map semester (all_disciplines (blocks (parse_curriculum_csv py0 [row_B1, row_M, row_sem5]))) =
     [Some 5] \<and>
   bucket_counts (summary (parse_curriculum_csv py0 [row_B1, row_M, row_sem5])) = [0, 0, 0, 0] \<and>
   total_disciplines (summary (parse_curriculum_csv py0 [row_B1, row_M, row_sem5])) = 1"
  unfolding summary_parse extract_summary_info_spec bucket_counts_spec tree_sem5
  by (simp add: all_disciplines_def all_modules_def in_semester_def summary_spec_def)

section \<open>Semesters outside 1 to 4\<close>

lemma step_discipline:
  assumes "strip c1 \<noteq> []" and "re_digits py (strip c1)" and "strip c2 \<noteq> []"
    and "strip c3 \<noteq> []" and "strip c4 \<noteq> []"
    and "int_of py (strip c1) = Some k"
    and "try_credits_hours py (strip c3) (strip c4) = Some (cr, hr)"
  shows "step py s (c1, c2, c3, c4) =
    append_discipline \<lparr>semester = Some k, name = strip c2, credits = cr, hours = hr\<rparr> s"
proof -
  from assms(1) have "c1 \<noteq> []" by (auto simp: strip_def)
  with assms show ?thesis
    by (simp add: step_def Let_def module_guard_def)
qed

lemma all_disciplines_without:
  "all_disciplines (without_out_of_range bs) = filter (\<lambda>d. \<not> out_of_range d) (all_disciplines bs)"
  by (induction bs)
     (simp_all add: all_disciplines_def all_modules_def without_out_of_range_def
        filter_concat comp_def)

lemma in_semester_without:
  "k \<in> {1, 2, 3, 4} \<Longrightarrow>
     in_semester k (filter (\<lambda>d. \<not> out_of_range d) ds) = in_semester k ds"
  by (induction ds) (auto simp: in_semester_def out_of_range_def)

lemma distribution_without:
  "semester_distribution (summary_spec py (without_out_of_range bs)) =
     semester_distribution (summary_spec py bs)"
  by (rule ext) (simp add: summary_spec_def all_disciplines_without in_semester_without)

lemma state_B1_M:
  "foldl (step py0) init_state [row_B1, row_M] =
     \<lparr>bheap = [\<lparr>block_number = 1, block_name = ascii ''A'', total_credits = PyFloat 10, total_hours = 360,
               modules = [0]\<rparr>],
      mheap = [\<lparr>module_name = ascii ''M'', m_credits = PyFloat 3, m_hours = 108, disciplines = []\<rparr>],
      st_blocks = [], st_total_credits = PyFloat 10, st_total_hours = 360,
      current_block = Some 0, current_module = Some 0\<rparr>"
  by (simp add: run_defs example_rows)

section \<open>Headers, unreadable cells and rows without a semester\<close>

lemmas more_rows = row_short_header_def row_bad_hours_def row_d1_def row_d1_bad_def row_S_def

text \<open>
  C1. The sums of the credits and of the hours over the blocks of the result should be
  the totals of the program. Here the input is a block header followed by a row whose
  second cell is the label and a number with a period but no name. The second row
  appends the open block to the list and opens no new one, so the end of the input
  appends the same block once more: the blocks sum to 720 hours and 20 credits, the
  program totals are 360 and 10. (When every header has its name the sums are the
  totals: \<open>totals_are_sums\<close> below.)
\<close>

theorem block_appended_twice:
  "blocks (parse_curriculum_csv py0 [row_B1, row_short_header]) =
     [\<lparr>block_number = 1, block_name = ascii ''A'', total_credits = PyFloat 10, total_hours = 360,
       modules = []\<rparr>,
      \<lparr>block_number = 1, block_name = ascii ''A'', total_credits = PyFloat 10, total_hours = 360,
       modules = []\<rparr>] \<and>
   sum_list (map total_hours (blocks (parse_curriculum_csv py0 [row_B1, row_short_header]))) = 720 \<and>
   pi_total_hours (program_info (parse_curriculum_csv py0 [row_B1, row_short_header])) = 360 \<and>
   foldl num_add PyInt0 (map total_credits (blocks (parse_curriculum_csv py0 [row_B1, row_short_header]))) = PyFloat 20 \<and>
   pi_total_credits (program_info (parse_curriculum_csv py0 [row_B1, row_short_header])) = PyFloat 10"
  by (simp add: run_defs example_rows more_rows)




text \<open>
  C3. A row with an empty first cell, a name that is neither a block label nor a
  number, and credits or hours above zero, coming while a module is open, should give
  that module a discipline without a semester. Here the rows are a block header, a
  module header \<open>M\<close> and such a row \<open>S\<close> (credits 2, hours 72). The row opens a second
  module and \<open>M\<close> gets no discipline: the fourth branch of the loop, which would append
  a discipline without a semester, has the guard of the second branch and is never
  reached (see \<open>every_discipline_has_semester\<close>).
\<close>

theorem second_candidate_opens_module:
  "blocks (parse_curriculum_csv py0 [row_B1, row_M, row_S]) =
     [\<lparr>block_number = 1, block_name = ascii ''A'', total_credits = PyFloat 10, total_hours = 360,
       modules =
         [\<lparr>module_name = ascii ''M'', m_credits = PyFloat 3, m_hours = 108, disciplines = []\<rparr>,
          \<lparr>module_name = ascii ''S'', m_credits = PyFloat 2, m_hours = 72, disciplines = []\<rparr>]\<rparr>]"
  by (simp add: run_defs example_rows more_rows)

section \<open>The totals when every header has a name\<close>

lemma step_not_header:
  assumes "\<not> (strip c1 = [] \<and> contains Blok (strip c2) \<and> re_block_short py (strip c2))"
  shows "step py s (c1, c2, c3, c4) = s \<or>
   (\<exists>b nm cr hr. step py s (c1, c2, c3, c4) = open_module b nm cr hr s) \<or>
   (\<exists>d. step py s (c1, c2, c3, c4) = append_discipline d s)"
proof -
  have e: "step py s (c1, c2, c3, c4) =
      (if c1 = [] \<and> c2 = [] \<and> c3 = [] \<and> c4 = [] then s
       else if module_guard py (strip c1) (strip c2) (strip c3) (strip c4) then
          (case current_block s of
             None \<Rightarrow> s
           | Some b \<Rightarrow>
               (case credits_hours_or_zero py (strip c3) (strip c4) of
                  (cr, hr) \<Rightarrow>
                    if num_pos cr \<or> 0 < hr then open_module b (strip c2) cr hr s else s))
        else if strip c1 \<noteq> [] \<and> re_digits py (strip c1) \<and> strip c2 \<noteq> [] \<and> strip c3 \<noteq> [] \<and>
            strip c4 \<noteq> [] then
          (case int_of py (strip c1) of
             None \<Rightarrow> s
           | Some semester_num \<Rightarrow>
               (case try_credits_hours py (strip c3) (strip c4) of
                  None \<Rightarrow> s
                | Some (cr, hr) \<Rightarrow>
                    append_discipline
                      \<lparr>semester = Some semester_num, name = strip c2, credits = cr, hours = hr\<rparr> s))
        else s)"
    (is "_ = (if ?b then s else if ?g then ?m else if ?h then ?d else s)")
  proof -
    from assms have g:
      "(strip c1 = [] \<and> contains Blok (strip c2) \<and> re_block_short py (strip c2)) = False"
      by simp
    show ?thesis
      unfolding step_def Let_def prod.case g if_False
      by (cases "module_guard py (strip c1) (strip c2) (strip c3) (strip c4)") simp_all
  qed
  have m: "?m = s \<or> (\<exists>b nm cr hr. ?m = open_module b nm cr hr s)"
    by (auto split: option.splits prod.splits)
  have d: "?d = s \<or> (\<exists>d. ?d = append_discipline d s)"
    by (auto split: option.splits prod.splits)
  show ?thesis
  proof (cases ?b)
    case True
    with e show ?thesis by simp
  next
    case nb: False
    show ?thesis
    proof (cases ?g)
      case True
      with e nb have x: "step py s (c1, c2, c3, c4) = ?m" by simp
      show ?thesis unfolding x using m by blast
    next
      case ng: False
      show ?thesis
      proof (cases ?h)
        case True
        with e nb ng have x: "step py s (c1, c2, c3, c4) = ?d" by simp
        show ?thesis unfolding x using d by blast
      next
        case False
        with e nb ng show ?thesis by simp
      qed
    qed
  qed
qed

lemma step_header:
  assumes "strip c1 = [] \<and> contains Blok (strip c2) \<and> re_block_short py (strip c2)"
    and "re_block_full py (strip c2) = Some (n, nm)"
  shows "\<exists>cr hr. step py s (c1, c2, c3, c4) = open_block n nm cr hr (seal_block s)"
proof -
  from assms(1) have "strip c2 \<noteq> []" by (auto simp: Blok_def)
  then have "c2 \<noteq> []" by (auto simp: strip_def)
  with assms show ?thesis
    by (auto simp: step_def Let_def split: prod.splits)
qed

lemma step_disj_full:
  assumes "header_full py r"
  shows "step py s r = s \<or>
   (\<exists>n nm cr hr. step py s r = open_block n nm cr hr (seal_block s)) \<or>
   (\<exists>b nm cr hr. step py s r = open_module b nm cr hr s) \<or>
   (\<exists>d. step py s r = append_discipline d s)"
proof (cases r)
  case (fields c1 c2 c3 c4)
  show ?thesis
  proof (cases "strip c1 = [] \<and> contains Blok (strip c2) \<and> re_block_short py (strip c2)")
    case True
    with assms fields obtain n nm where "re_block_full py (strip c2) = Some (n, nm)"
      by (auto simp: header_full_def)
    from step_header [OF True this, of s c3 c4] show ?thesis unfolding fields by blast
  next
    case False
    from step_not_header [OF False, of s c3 c4] show ?thesis unfolding fields by blast
  qed
qed

lemma opened_open_block:
  "opened (open_block n nm cr hr (seal_block s)) = opened s @ [length (bheap s)]"
  by (simp add: opened_def open_block_def seal_block_def split: option.splits)

lemma totals_ok_open_block:
  assumes "totals_ok s"
  shows "totals_ok (open_block n nm cr hr (seal_block s))"
proof -
  let ?t = "open_block n nm cr hr (seal_block s)"
  have h: "bheap (seal_block s) = bheap s" "st_total_hours (seal_block s) = st_total_hours s"
    "st_total_credits (seal_block s) = st_total_credits s"
    by (simp_all add: seal_block_def split: option.splits)
  from assms have v: "\<forall>b \<in> set (opened s). b < length (bheap s)" by (simp add: totals_ok_def)
  have b: "bheap ?t = bheap s @ [\<lparr>block_number = n, block_name = nm, total_credits = cr,
      total_hours = hr, modules = []\<rparr>]"
    by (simp add: open_block_def h)
  have m: "map (\<lambda>b. f (bheap ?t ! b)) (opened s) = map (\<lambda>b. f (bheap s ! b)) (opened s)"
    for f :: "('a, nat) block \<Rightarrow> 'c"
    using v by (simp add: b nth_append)
  have l: "length (bheap ?t) = Suc (length (bheap s))" by (simp add: b)
  have x: "bheap ?t ! length (bheap s) = \<lparr>block_number = n, block_name = nm, total_credits = cr,
      total_hours = hr, modules = []\<rparr>"
    by (simp add: b)
  have "st_total_hours ?t = st_total_hours s + hr" "st_total_credits ?t = num_add (st_total_credits s) cr"
    by (simp_all add: open_block_def h)
  with assms v show ?thesis
    unfolding totals_ok_def opened_open_block
    by (auto simp: m l x less_Suc_eq)
qed

lemma totals_ok_open_module:
  assumes "totals_ok s"
  shows "totals_ok (open_module b nm cr hr s)"
proof -
  have "total_hours (bheap (open_module b nm cr hr s) ! i) = total_hours (bheap s ! i) \<and>
        total_credits (bheap (open_module b nm cr hr s) ! i) = total_credits (bheap s ! i)" for i
    by (cases "b < length (bheap s)")
       (simp_all add: open_module_def nth_list_update list_update_beyond)
  with assms show ?thesis
    by (simp add: totals_ok_def opened_def) (simp add: open_module_def)
qed

lemma totals_ok_append_discipline: "totals_ok s \<Longrightarrow> totals_ok (append_discipline d s)"
  by (simp add: totals_ok_def opened_def append_discipline_def split: option.splits)

lemma totals_ok_step: "header_full py r \<Longrightarrow> totals_ok s \<Longrightarrow> totals_ok (step py s r)"
  using step_disj_full [of py r s]
  by (auto simp: totals_ok_open_block totals_ok_open_module totals_ok_append_discipline)

lemma totals_ok_foldl:
  "list_all (header_full py) rs \<Longrightarrow> totals_ok s \<Longrightarrow> totals_ok (foldl (step py) s rs)"
  by (induction rs arbitrary: s) (simp_all add: totals_ok_step)

lemma totals_ok_init: "totals_ok init_state"
  by (simp add: totals_ok_def opened_def init_state_def)

lemma st_blocks_seal: "st_blocks (seal_block s) = opened s"
  by (simp add: opened_def seal_block_def split: option.splits)

text \<open>
  When no header row lacks its name, the totals of the program are the sums over the
  blocks of the result, taken in the order of the list.
\<close>

lemma totals_are_sums:
  assumes "list_all (header_full py) rows"
  shows "sum_list (map total_hours (blocks (parse_curriculum_csv py rows))) =
           pi_total_hours (program_info (parse_curriculum_csv py rows))"
    and "foldl num_add PyInt0 (map total_credits (blocks (parse_curriculum_csv py rows))) =
           pi_total_credits (program_info (parse_curriculum_csv py rows))"
proof -
  let ?s = "foldl (step py) init_state rows"
  have t: "totals_ok ?s" using assms totals_ok_init by (rule totals_ok_foldl)
  have f: "final_state py rows = seal_block ?s" by (simp add: final_state_def)
  have h: "bheap (seal_block ?s) = bheap ?s" "st_total_hours (seal_block ?s) = st_total_hours ?s"
    "st_total_credits (seal_block ?s) = st_total_credits ?s"
    by (simp_all add: seal_block_def split: option.splits)
  show "sum_list (map total_hours (blocks (parse_curriculum_csv py rows))) =
           pi_total_hours (program_info (parse_curriculum_csv py rows))"
    using t
    by (simp add: parse_final f st_blocks_seal Let_def comp_def deref_block_def h totals_ok_def)
  show "foldl num_add PyInt0 (map total_credits (blocks (parse_curriculum_csv py rows))) =
           pi_total_credits (program_info (parse_curriculum_csv py rows))"
    using t
    by (simp add: parse_final f st_blocks_seal Let_def comp_def deref_block_def h totals_ok_def)
qed

section \<open>Blank and unreadable cells, row by row\<close>









section \<open>The first row, and discipline rows of other semesters\<close>

lemma step_first_row:
  assumes "\<not> (header_guard py c1 c2 \<and> re_block_full py (strip c2) \<noteq> None)"
  shows "step py init_state (c1, c2, c3, c4) = init_state"
proof -
  have n: "current_block (init_state :: 'a state) = None"
    "current_module (init_state :: 'a state) = None"
    "seal_block (init_state :: 'a state) = init_state"
    by (simp_all add: init_state_def seal_block_def)
  have "step py init_state (c1, c2, c3, c4) = init_state"
    if "header_guard py c1 c2"
  proof -
    from that assms have f: "re_block_full py (strip c2) = None"
      by (cases "re_block_full py (strip c2)") auto
    from that have "strip c2 \<noteq> []" by (auto simp: header_guard_def Blok_def)
    then have "c2 \<noteq> []" by (auto simp: strip_def)
    with that f n(3) show ?thesis by (simp add: step_def Let_def header_guard_def)
  qed
  moreover have "step py init_state (c1, c2, c3, c4) = init_state"
    if "\<not> header_guard py c1 c2"
    using step_not_header [of c1 c2 py init_state c3 c4] that n
    unfolding header_guard_def
    by (auto simp: append_discipline_def step_def Let_def split: option.splits)
  ultimately show ?thesis by blast
qed

lemma parse_first_row_skipped:
  assumes "step py init_state r = init_state"
  shows "parse_curriculum_csv py (r # rs) = with_title (program_title (r # rs)) (parse_curriculum_csv py rs)"
  by (rule parse_same_state) (simp add: final_state_def assms)

text \<open>
  C9 (as amended). The title is the first cell of the first row as it stands, and the
  default title when there is no row. The first row then goes through the loop like
  every other row (the state after the rows is the loop run from the first row on).
  When the first row is a block header with its name, the result has a first block with
  the number and the name of that header. A first row of any other kind gives no node,
  since no block and no module is open: it leaves the first state as it is, and the
  result is that of the rows after it, with its first cell as the title.
\<close>

theorem title_from_first_row:
  "title (program_info (parse_curriculum_csv py ((c1, c2, c3, c4) # rs))) = c1 \<and>
   title (program_info (parse_curriculum_csv py [])) = default_title \<and>
   final_state py ((c1, c2, c3, c4) # rs) =
     seal_block (foldl (step py) (step py init_state (c1, c2, c3, c4)) rs) \<and>
   (strip c1 = [] \<and> contains Blok (strip c2) \<and> re_block_short py (strip c2) \<and>
    re_block_full py (strip c2) = Some (n, nm) \<longrightarrow>
      blocks (parse_curriculum_csv py ((c1, c2, c3, c4) # rs)) \<noteq> [] \<and>
      block_number (hd (blocks (parse_curriculum_csv py ((c1, c2, c3, c4) # rs)))) = n \<and>
      block_name (hd (blocks (parse_curriculum_csv py ((c1, c2, c3, c4) # rs)))) = nm) \<and>
   (\<not> (strip c1 = [] \<and> contains Blok (strip c2) \<and> re_block_short py (strip c2) \<and>
       re_block_full py (strip c2) \<noteq> None) \<longrightarrow>
      step py init_state (c1, c2, c3, c4) = init_state \<and>
      parse_curriculum_csv py ((c1, c2, c3, c4) # rs) =
        with_title c1 (parse_curriculum_csv py rs))"
proof -
  have "first_block n nm (foldl (step py) (step py init_state (c1, c2, c3, c4)) rs)"
    if "strip c1 = []" "contains Blok (strip c2)" "re_block_short py (strip c2)"
      "re_block_full py (strip c2) = Some (n, nm)"
    using first_block_foldl [OF first_block_header [OF that]] .
  then have a: "title (program_info (parse_curriculum_csv py ((c1, c2, c3, c4) # rs))) = c1 \<and>
   title (program_info (parse_curriculum_csv py [])) = default_title \<and>
   final_state py ((c1, c2, c3, c4) # rs) =
     seal_block (foldl (step py) (step py init_state (c1, c2, c3, c4)) rs) \<and>
   (strip c1 = [] \<and> contains Blok (strip c2) \<and> re_block_short py (strip c2) \<and>
    re_block_full py (strip c2) = Some (n, nm) \<longrightarrow>
      blocks (parse_curriculum_csv py ((c1, c2, c3, c4) # rs)) \<noteq> [] \<and>
      block_number (hd (blocks (parse_curriculum_csv py ((c1, c2, c3, c4) # rs)))) = n \<and>
      block_name (hd (blocks (parse_curriculum_csv py ((c1, c2, c3, c4) # rs)))) = nm)"
    using first_block_result [of n nm "foldl (step py) (step py init_state (c1, c2, c3, c4)) rs"]
    by (simp add: parse_final final_state_def Let_def program_title_def)
  have b: "step py init_state (c1, c2, c3, c4) = init_state \<and>
      parse_curriculum_csv py ((c1, c2, c3, c4) # rs) = with_title c1 (parse_curriculum_csv py rs)"
    if "\<not> (strip c1 = [] \<and> contains Blok (strip c2) \<and> re_block_short py (strip c2) \<and>
       re_block_full py (strip c2) \<noteq> None)"
  proof -
    from that have "step py init_state (c1, c2, c3, c4) = init_state"
      by (intro step_first_row) (simp add: header_guard_def)
    then show ?thesis
      using parse_first_row_skipped [of py "(c1, c2, c3, c4)" rs]
      by (simp add: program_title_def)
  qed
  from a b show ?thesis by blast
qed

theorem title_from_first_row_witness:
  "title (program_info (parse_curriculum_csv py0 [row_A])) = [] \<and>
   block_number (hd (blocks (parse_curriculum_csv py0 [row_A]))) = 1 \<and>
   block_name (hd (blocks (parse_curriculum_csv py0 [row_A]))) = Distsipliny \<and>
   parse_curriculum_csv py0 [row_orphan, row_A] =
     with_title (ascii ''1'') (parse_curriculum_csv py0 [row_A])"
proof -
  have h: "strip [] = [] \<and> contains Blok (strip (Blok @ ascii '' 1. '' @ Distsipliny)) \<and>
      re_block_short py0 (strip (Blok @ ascii '' 1. '' @ Distsipliny)) \<and>
      re_block_full py0 (strip (Blok @ ascii '' 1. '' @ Distsipliny)) = Some (1, Distsipliny)"
    by (simp add: run_defs Distsipliny_def)
  have x: "title (program_info (parse_curriculum_csv py0 [row_A])) = [] \<and>
   block_number (hd (blocks (parse_curriculum_csv py0 [row_A]))) = 1 \<and>
   block_name (hd (blocks (parse_curriculum_csv py0 [row_A]))) = Distsipliny"
    using h title_from_first_row [of py0 "[]" "Blok @ ascii '' 1. '' @ Distsipliny" "ascii ''10''"
      "ascii ''360''" "[]" 1 Distsipliny]
    unfolding row_A_def by blast
  have g: "strip (ascii ''1'') \<noteq> []" by (simp add: run_defs)
  have y: "parse_curriculum_csv py0 [row_orphan, row_A] =
     with_title (ascii ''1'') (parse_curriculum_csv py0 [row_A])"
    using g title_from_first_row [of py0 "ascii ''1''" "ascii ''X''" "ascii ''5''" "ascii ''180''"
      "[row_A]"]
    unfolding row_orphan_def by blast
  from x y show ?thesis by simp
qed

theorem first_row_of_other_kind_gives_no_node:
  "re_digits py0 (strip (ascii ''1'')) \<and> strip (ascii ''X'') \<noteq> [] \<and>
   strip (ascii ''5'') \<noteq> [] \<and> strip (ascii ''180'') \<noteq> [] \<and>
   title (program_info (parse_curriculum_csv py0 [row_orphan])) = ascii ''1'' \<and>
   blocks (parse_curriculum_csv py0 [row_orphan]) = [] \<and>
   module_guard py0 (strip []) (strip (ascii ''M'')) (strip (ascii ''3'')) (strip (ascii ''108'')) \<and>
   blocks (parse_curriculum_csv py0 [row_M]) = []"
  by (simp add: run_defs row_orphan_def row_M_def)

text \<open>
  C10 (as amended). A discipline row whose first cell reads as an integer outside 1 to
  4, and whose credit and hour cells can be read, still appends a discipline with that
  semester to the open module; when the credit or the hour cell cannot be read, or no
  module is open, the row leaves the state as it is. The aggregator puts a discipline of
  such a semester in no bucket: the distribution is that of the tree without such
  disciplines. It still counts it: \<open>total_disciplines\<close> is the total of that smaller tree
  plus the number of such disciplines.
\<close>

theorem semester_outside_buckets:
  "(strip c1 \<noteq> [] \<and> re_digits py (strip c1) \<and> strip c2 \<noteq> [] \<and> strip c3 \<noteq> [] \<and> strip c4 \<noteq> [] \<and>
    int_of py (strip c1) = Some k \<and> k \<notin> {1, 2, 3, 4} \<and>
    try_credits_hours py (strip c3) (strip c4) = Some (cr, hr) \<and> current_module s = Some m \<longrightarrow>
      step py s (c1, c2, c3, c4) =
        s\<lparr>mheap := (mheap s)[m := (mheap s ! m)\<lparr>disciplines := disciplines (mheap s ! m) @
          [\<lparr>semester = Some k, name = strip c2, credits = cr, hours = hr\<rparr>]\<rparr>]\<rparr>) \<and>
   (strip c1 \<noteq> [] \<and> re_digits py (strip c1) \<and> strip c2 \<noteq> [] \<and> strip c3 \<noteq> [] \<and> strip c4 \<noteq> [] \<and>
    int_of py (strip c1) = Some k \<and> k \<notin> {1, 2, 3, 4} \<and>
    (try_credits_hours py (strip c3) (strip c4) = None \<or> current_module s = None) \<longrightarrow>
      step py s (c1, c2, c3, c4) = s) \<and>
   semester_distribution (extract_summary_info py bs) =
     semester_distribution (extract_summary_info py (without_out_of_range bs)) \<and>
   total_disciplines (extract_summary_info py bs) =
     total_disciplines (extract_summary_info py (without_out_of_range bs)) +
       length (filter out_of_range (all_disciplines bs))"
proof -
  have "length (all_disciplines bs) =
      length (filter (\<lambda>d. \<not> out_of_range d) (all_disciplines bs)) +
      length (filter out_of_range (all_disciplines bs))"
    using sum_length_filter_compl [of out_of_range "all_disciplines bs"] by simp
  then have t: "total_disciplines (summary_spec py bs) =
      total_disciplines (summary_spec py (without_out_of_range bs)) +
        length (filter out_of_range (all_disciplines bs))"
    by (simp add: summary_spec_def all_disciplines_without)
  have d: "step py s (c1, c2, c3, c4) = s"
    if "strip c1 \<noteq> []" "re_digits py (strip c1)"
      "try_credits_hours py (strip c3) (strip c4) = None \<or> current_module s = None"
  proof -
    from that(1) have "c1 \<noteq> []" by (auto simp: strip_def)
    with that show ?thesis
      by (auto simp: step_def Let_def module_guard_def append_discipline_def
          split: option.splits)
  qed
  from t d show ?thesis
    by (auto simp: extract_summary_info_spec distribution_without step_discipline
        append_discipline_def)
qed

theorem semester_outside_buckets_witness:
  "mheap (step py0 (foldl (step py0) init_state [row_B1, row_M]) row_sem5) =
     [\<lparr>module_name = ascii ''M'', m_credits = PyFloat 3, m_hours = 108,
       disciplines = [\<lparr>semester = Some 5, name = ascii ''X'', credits = PyFloat 5, hours = 180\<rparr>]\<rparr>] \<and>
   step py0 (foldl (step py0) init_state [row_B1, row_M]) row_sem5_bad =
     foldl (step py0) init_state [row_B1, row_M] \<and>
   total_disciplines (extract_summary_info py0
     (blocks (parse_curriculum_csv py0 [row_B1, row_M, row_sem5]))) =
   total_disciplines (extract_summary_info py0
     (without_out_of_range (blocks (parse_curriculum_csv py0 [row_B1, row_M, row_sem5])))) + 1"
proof -
  let ?s = "foldl (step py0) init_state [row_B1, row_M]"
  have h: "strip (ascii ''5'') \<noteq> [] \<and> re_digits py0 (strip (ascii ''5'')) \<and>
      strip (ascii ''X'') \<noteq> [] \<and> strip (ascii ''5'') \<noteq> [] \<and> strip (ascii ''180'') \<noteq> [] \<and>
      int_of py0 (strip (ascii ''5'')) = Some 5 \<and> (5::int) \<notin> {1, 2, 3, 4} \<and>
      try_credits_hours py0 (strip (ascii ''5'')) (strip (ascii ''180'')) = Some (PyFloat 5, 180) \<and>
      current_module ?s = Some 0"
    unfolding state_B1_M by (simp add: run_defs)
  have h': "strip (ascii ''abc'') \<noteq> [] \<and>
      try_credits_hours py0 (strip (ascii ''5'')) (strip (ascii ''abc'')) = None"
    by (simp add: run_defs)
  have x: "strip (ascii ''X'') = ascii ''X''" by (simp add: run_defs)
  have n: "length (filter out_of_range
      (all_disciplines (blocks (parse_curriculum_csv py0 [row_B1, row_M, row_sem5])))) = 1"
    unfolding tree_sem5 by (simp add: all_disciplines_def all_modules_def out_of_range_def)
  from semester_outside_buckets [of "ascii ''5''" py0 "ascii ''X''" "ascii ''5''" "ascii ''180''"
      5 "PyFloat 5" 180 ?s 0 "blocks (parse_curriculum_csv py0 [row_B1, row_M, row_sem5])"] h
  have "step py0 ?s row_sem5 =
      ?s\<lparr>mheap := (mheap ?s)[0 := (mheap ?s ! 0)\<lparr>disciplines := disciplines (mheap ?s ! 0) @
          [\<lparr>semester = Some 5, name = strip (ascii ''X''), credits = PyFloat 5, hours = 180\<rparr>]\<rparr>]\<rparr>"
    and "total_disciplines (extract_summary_info py0
        (blocks (parse_curriculum_csv py0 [row_B1, row_M, row_sem5]))) =
      total_disciplines (extract_summary_info py0
        (without_out_of_range (blocks (parse_curriculum_csv py0 [row_B1, row_M, row_sem5])))) +
      length (filter out_of_range
        (all_disciplines (blocks (parse_curriculum_csv py0 [row_B1, row_M, row_sem5]))))"
    unfolding row_sem5_def by blast+
  moreover
  from semester_outside_buckets [of "ascii ''5''" py0 "ascii ''X''" "ascii ''5''" "ascii ''abc''"
      5 _ _ ?s] h h'
  have "step py0 ?s row_sem5_bad = ?s"
    unfolding row_sem5_bad_def by blast
  ultimately show ?thesis
    unfolding n x state_B1_M by simp
qed

theorem semester_five_unreadable_hours_dropped:
  "re_digits py0 (strip (ascii ''5'')) \<and> int_of py0 (strip (ascii ''5'')) = Some 5 \<and>
   strip (ascii ''X'') \<noteq> [] \<and> strip (ascii ''5'') \<noteq> [] \<and> strip (ascii ''abc'') \<noteq> [] \<and>
   current_module (foldl (step py0) init_state [row_B1, row_M]) = Some 0 \<and>
   step py0 (foldl (step py0) init_state [row_B1, row_M]) row_sem5_bad =
     foldl (step py0) init_state [row_B1, row_M] \<and>
   all_disciplines (blocks (parse_curriculum_csv py0 [row_B1, row_M, row_sem5_bad])) = []"
  by (simp add: run_defs example_rows row_sem5_bad_def all_disciplines_def all_modules_def)

end
